theory Spec2Isabelle
  imports Main
begin

section \<open>Data model\<close>

text \<open>
  The orchestrator of \<^verbatim>\<open>src/lib/DefaultRuleManager.ts\<close> and the message emitter of
  \<^verbatim>\<open>SfdxMessager.java\<close>, embedded as pure functions. Promises are modelled by their
  settled outcome: \<open>Inl\<close> is a rejection or a thrown value, \<open>Inr\<close> the resolved value.
\<close>

text \<open>
  A value that an engine's \<^verbatim>\<open>run\<close> (or the recombinator) rejects with: either an error
  object carrying a \<^verbatim>\<open>message\<close> property, or a value without one (a thrown string, say).
\<close>

datatype rejection = ErrorObject string | NonError string

text \<open>
  What \<^verbatim>\<open>unpackTargets\<close> and \<^verbatim>\<open>runRulesMatchingCriteria\<close> can throw:
  the failure of \<^verbatim>\<open>assert(targetPatterns)\<close>, the \<^verbatim>\<open>TypeError\<close> that picomatch throws
  for an empty pattern string, the \<^verbatim>\<open>SyntaxError\<close> that it throws for a pattern that is
  too long, and \<^verbatim>\<open>new SfdxError(e.message || e)\<close>, whose argument is the message
  (\<open>Inl\<close>) or the caught value itself (\<open>Inr\<close>).
\<close>

datatype error = AssertionError | TypeError | SyntaxError | SfdxError "string + rejection"

record Rule =
  engine :: string
  name :: string

record RuleGroup =
  engine :: string
  name :: string

text \<open>\<^verbatim>\<open>isDirectory\<close> is an optional field: \<open>None\<close> where the object literal leaves it out.\<close>

record RuleTarget =
  target :: string
  isDirectory :: "bool option"
  paths :: "string list"

text \<open>
  The \<^verbatim>\<open>RuleEngine\<close> interface. \<^verbatim>\<open>getTargetPatterns\<close> answers \<open>None\<close> when the engine
  hands back \<^verbatim>\<open>undefined\<close> instead of an array; \<^verbatim>\<open>init\<close> is \<open>None\<close> when it resolves.
\<close>

record 'res RuleEngine =
  getName :: string
  engine_init :: "rejection option"
  getTargetPatterns :: "string \<Rightarrow> string list option"
  run :: "RuleGroup list \<Rightarrow> Rule list \<Rightarrow> RuleTarget list \<Rightarrow> (string \<rightharpoonup> string)
            \<Rightarrow> rejection + 'res list"

record 'f RuleCatalog =
  catalog_init :: "rejection option"
  getRuleGroupsMatchingFilters :: "'f list \<Rightarrow> RuleGroup list"
  getRulesMatchingFilters :: "'f list \<Rightarrow> Rule list"

text \<open>
  The file system and the third-party libraries the manager calls, taken as parameters:
  \<^verbatim>\<open>FileHandler.exists\<close>, \<^verbatim>\<open>Stats.isDirectory\<close>, \<^verbatim>\<open>globby.hasMagic\<close>, \<^verbatim>\<open>globby(target)\<close>,
  \<^verbatim>\<open>globby(patterns, {cwd})\<close>, \<^verbatim>\<open>path.resolve\<close>, \<^verbatim>\<open>path.join\<close>, and the matcher that
  picomatch compiles from one glob string (\<open>isMatch g s\<close>: glob \<open>g\<close> matches path \<open>s\<close>;
  the negation of a glob that starts with \<^verbatim>\<open>!\<close> is part of it).
\<close>

record world =
  fileExists :: "string \<Rightarrow> bool"
  stats_isDirectory :: "string \<Rightarrow> bool"
  hasMagic :: "string \<Rightarrow> bool"
  globby :: "string \<Rightarrow> string list"
  globby_cwd :: "string list \<Rightarrow> string \<Rightarrow> string list"
  path_resolve :: "string \<Rightarrow> string"
  path_join :: "string \<Rightarrow> string \<Rightarrow> string"
  isMatch :: "string \<Rightarrow> string \<Rightarrow> bool"

section \<open>Target resolution\<close>

definition startsWith :: "string \<Rightarrow> string \<Rightarrow> bool" where
  "startsWith p pre = (take (length pre) p = pre)"

text \<open>
  \<^verbatim>\<open>picomatch(globs)\<close> on an array, as picomatch 2.x (\<^verbatim>\<open>lib/picomatch.js\<close>,
  \<^verbatim>\<open>lib/parse.js\<close>) has it, called without options. \<^verbatim>\<open>glob.map(input => picomatch(input))\<close>
  compiles the globs in the order of the array, and the first one that cannot be
  compiled throws: the empty string throws \<^verbatim>\<open>TypeError('Expected pattern to be a
  non-empty string')\<close>, and a glob of more than \<^verbatim>\<open>MAX_LENGTH = 1024 * 64\<close> characters throws
  \<^verbatim>\<open>SyntaxError('Input length: ..., exceeds maximum allowed length: ...')\<close>. The other
  throws of the parser need the option \<^verbatim>\<open>strictBrackets\<close> or a Node.js before version 10.
\<close>

fun compileGlobs :: "string list \<Rightarrow> error option" where
  "compileGlobs [] = None"
| "compileGlobs (g # gs) =
     (if g = [] then Some TypeError
      else if length g > 65536 then Some SyntaxError
      else compileGlobs gs)"

text \<open>
  The returned \<^verbatim>\<open>arrayMatcher\<close> runs
  \<^verbatim>\<open>for (const isMatch of fns) { const state = isMatch(str); if (state) return state; }
  return false;\<close> so it accepts a string exactly when some glob of the array does.
\<close>

definition picomatch :: "world \<Rightarrow> string list \<Rightarrow> error + (string \<Rightarrow> bool)" where
  "picomatch w glob =
     (case compileGlobs glob of
        Some err \<Rightarrow> Inl err
      | None \<Rightarrow> Inr (\<lambda>str. list_ex (\<lambda>g. isMatch w g str) glob))"

text \<open>JavaScript truthiness of the value \<^verbatim>\<open>getTargetPatterns\<close> returned: an array, the empty
  one included, is truthy; \<^verbatim>\<open>undefined\<close> is not.\<close>

fun truthy :: "string list option \<Rightarrow> bool" where
  "truthy None = False"
| "truthy (Some _) = True"

text \<open>
  The body of the \<^verbatim>\<open>for (const target of targets)\<close> loop of \<^verbatim>\<open>unpackTargets\<close>: the
  RuleTargets that this iteration pushes (none or one), or what it throws.
  \<^verbatim>\<open>assert(targetPatterns)\<close> throws exactly when the value is not truthy, that is
  \<^verbatim>\<open>undefined\<close>; past it the value is an array, and the later test
  \<^verbatim>\<open>if (targetPatterns)\<close> is kept as the source writes it.
\<close>

definition unpackTarget :: "world \<Rightarrow> 'res RuleEngine \<Rightarrow> string \<Rightarrow> error + RuleTarget list" where
  "unpackTarget w e tgt =
     (case getTargetPatterns e tgt of
        None \<Rightarrow> Inl AssertionError
      | Some targetPatterns \<Rightarrow>
        (case picomatch w (filter (\<lambda>p. \<not> startsWith p ''!'') targetPatterns) of
           Inl err \<Rightarrow> Inl err
         | Inr isInclusiveMatch \<Rightarrow>
        (case picomatch w (filter (\<lambda>p. startsWith p ''!'') targetPatterns) of
           Inl err \<Rightarrow> Inl err
         | Inr isExclusiveMatch \<Rightarrow>
        (let exists = fileExists w tgt in
         if hasMagic w tgt then
           (let matchingTargets = globby w tgt;
                absoluteMatchingTargets = map (path_resolve w) matchingTargets;
                ruleTarget = \<lparr>target = tgt, isDirectory = None,
                   paths = filter (\<lambda>t. isInclusiveMatch t \<and> isExclusiveMatch t)
                             absoluteMatchingTargets\<rparr>
            in if length (paths ruleTarget) > 0 then Inr [ruleTarget] else Inr [])
         else if exists then
           (if stats_isDirectory w tgt then
              (if truthy (Some targetPatterns) then
                 (let relativePaths = globby_cwd w targetPatterns tgt;
                      joinedPaths = map (path_join w tgt) relativePaths;
                      absolutePaths = map (path_resolve w) joinedPaths
                  in Inr [\<lparr>target = tgt, isDirectory = Some True, paths = absolutePaths\<rparr>])
               else Inr [\<lparr>target = tgt, isDirectory = Some True, paths = [''.'']\<rparr>])
            else
              (let absolutePath = path_resolve w tgt in
               if isInclusiveMatch absolutePath \<and> isExclusiveMatch absolutePath
               then Inr [\<lparr>target = tgt, isDirectory = None, paths = [absolutePath]\<rparr>]
               else Inr []))
         else Inr []))))"

text \<open>The loop itself, with \<^verbatim>\<open>ruleTargets\<close> as the accumulator; a throw ends it.\<close>

fun unpackLoop :: "world \<Rightarrow> 'res RuleEngine \<Rightarrow> RuleTarget list \<Rightarrow> string list
                     \<Rightarrow> error + RuleTarget list" where
  "unpackLoop w e ruleTargets [] = Inr ruleTargets"
| "unpackLoop w e ruleTargets (tgt # targets) =
     (case unpackTarget w e tgt of
        Inl err \<Rightarrow> Inl err
      | Inr pushed \<Rightarrow> unpackLoop w e (ruleTargets @ pushed) targets)"

definition unpackTargets :: "world \<Rightarrow> 'res RuleEngine \<Rightarrow> string list \<Rightarrow> error + RuleTarget list" where
  "unpackTargets w e targets = unpackLoop w e [] targets"

section \<open>Orchestration\<close>

text \<open>
  One \<^verbatim>\<open>e.run(engineGroups, engineRules, engineTargets, engineOptions)\<close> that the loop of
  \<^verbatim>\<open>runRulesMatchingCriteria\<close> makes: the engine and the three arguments derived for it.
\<close>

type_synonym 'res dispatch = "'res RuleEngine \<times> RuleGroup list \<times> Rule list \<times> RuleTarget list"

text \<open>
  The \<^verbatim>\<open>for (const e of this.engines)\<close> loop: the calls of \<^verbatim>\<open>run\<close> it makes, in the
  order it pushes their promises onto \<^verbatim>\<open>ps\<close>; a throw of \<^verbatim>\<open>unpackTargets\<close> ends it.
\<close>

fun dispatchLoop :: "world \<Rightarrow> RuleGroup list \<Rightarrow> Rule list \<Rightarrow> string list
                       \<Rightarrow> 'res RuleEngine list \<Rightarrow> error + 'res dispatch list" where
  "dispatchLoop w ruleGroups rules targets [] = Inr []"
| "dispatchLoop w ruleGroups rules targets (e # es) =
     (let engineGroups = filter (\<lambda>g. RuleGroup.engine g = getName e) ruleGroups;
          engineRules = filter (\<lambda>r. Rule.engine r = getName e) rules
      in case unpackTargets w e targets of
           Inl err \<Rightarrow> Inl err
         | Inr engineTargets \<Rightarrow>
             (case dispatchLoop w ruleGroups rules targets es of
                Inl err \<Rightarrow> Inl err
              | Inr ps \<Rightarrow>
                  if length engineRules > 0 \<and> length engineTargets > 0
                  then Inr ((e, engineGroups, engineRules, engineTargets) # ps)
                  else Inr ps))"

text \<open>
  The test \<^verbatim>\<open>engineRules.length > 0 && engineTargets.length > 0\<close> for one engine, and the
  call that the loop makes when it holds.
\<close>

definition isEligible :: "world \<Rightarrow> Rule list \<Rightarrow> string list \<Rightarrow> 'res RuleEngine \<Rightarrow> bool" where
  "isEligible w rules targets e =
     (length (filter (\<lambda>r. Rule.engine r = getName e) rules) > 0 \<and>
      (case unpackTargets w e targets of
         Inl err \<Rightarrow> False
       | Inr engineTargets \<Rightarrow> length engineTargets > 0))"

definition dispatchOf :: "world \<Rightarrow> RuleGroup list \<Rightarrow> Rule list \<Rightarrow> string list
                            \<Rightarrow> 'res RuleEngine \<Rightarrow> 'res dispatch" where
  "dispatchOf w ruleGroups rules targets e =
     (e, filter (\<lambda>g. RuleGroup.engine g = getName e) ruleGroups,
         filter (\<lambda>r. Rule.engine r = getName e) rules,
         (case unpackTargets w e targets of Inl err \<Rightarrow> [] | Inr engineTargets \<Rightarrow> engineTargets))"

definition runDispatch :: "(string \<rightharpoonup> string) \<Rightarrow> 'res dispatch \<Rightarrow> rejection + 'res list" where
  "runDispatch engineOptions d =
     (case d of (e, engineGroups, engineRules, engineTargets) \<Rightarrow>
        run e engineGroups engineRules engineTargets engineOptions)"

text \<open>
  \<^verbatim>\<open>Promise.all(ps)\<close>, every promise of \<open>ps\<close> settling. \<open>settled\<close> lists the indices of
  \<open>ps\<close> in the order in which the promises settle (the timing of the concurrent runs).
  With no rejection the result is the values in the order of \<open>ps\<close>; otherwise it is the
  reason of the promise that rejects first in time.
\<close>

definition rejections :: "(rejection + 'a) list \<Rightarrow> rejection list" where
  "rejections ps = map projl (filter isl ps)"

definition rejectionsInTime :: "nat list \<Rightarrow> (rejection + 'a) list \<Rightarrow> rejection list" where
  "rejectionsInTime settled ps =
     map (\<lambda>i. projl (ps ! i)) (filter (\<lambda>i. i < length ps \<and> isl (ps ! i)) settled)"

definition promise_all :: "nat list \<Rightarrow> (rejection + 'a) list \<Rightarrow> rejection + 'a list" where
  "promise_all settled ps =
     (case rejectionsInTime settled ps @ rejections ps of
        [] \<Rightarrow> Inr (map projr ps)
      | reason # _ \<Rightarrow> Inl reason)"

text \<open>\<^verbatim>\<open>e.message || e\<close>: the message when it is a non-empty string, else the value.\<close>

fun message_or_self :: "rejection \<Rightarrow> string + rejection" where
  "message_or_self (ErrorObject m) = (if m = [] then Inr (ErrorObject m) else Inl m)"
| "message_or_self (NonError v) = Inr (NonError v)"

text \<open>\<^verbatim>\<open>psResults.forEach(r => results = results.concat(r))\<close>, from \<^verbatim>\<open>results = []\<close>.\<close>

definition concatResults :: "'res list list \<Rightarrow> 'res list" where
  "concatResults psResults = foldl (\<lambda>results r. results @ r) [] psResults"

text \<open>
  The list that \<^verbatim>\<open>runRulesMatchingCriteria\<close> hands to
  \<^verbatim>\<open>RuleResultRecombinator.recombineAndReformatResults\<close>, or what is thrown before.
\<close>

definition combinedResults :: "world \<Rightarrow> 'res RuleEngine list \<Rightarrow> 'f RuleCatalog \<Rightarrow> nat list
     \<Rightarrow> 'f list \<Rightarrow> string list \<Rightarrow> (string \<rightharpoonup> string) \<Rightarrow> error + 'res list" where
  "combinedResults w engines catalog settled filters targets engineOptions =
     (let ruleGroups = getRuleGroupsMatchingFilters catalog filters;
          rules = getRulesMatchingFilters catalog filters
      in case dispatchLoop w ruleGroups rules targets engines of
           Inl err \<Rightarrow> Inl err
         | Inr ds \<Rightarrow>
             (case promise_all settled (map (runDispatch engineOptions) ds) of
                Inl e \<Rightarrow> Inl (SfdxError (message_or_self e))
              | Inr psResults \<Rightarrow> Inr (concatResults psResults)))"

text \<open>
  \<^verbatim>\<open>runRulesMatchingCriteria\<close>. The recombinator is a collaborator outside this file and
  is a parameter; what it throws is caught by the same \<^verbatim>\<open>catch\<close>.
\<close>

definition runRulesMatchingCriteria :: "('res list \<Rightarrow> 'fmt \<Rightarrow> rejection + 'rep) \<Rightarrow> world
     \<Rightarrow> 'res RuleEngine list \<Rightarrow> 'f RuleCatalog \<Rightarrow> nat list
     \<Rightarrow> 'f list \<Rightarrow> string list \<Rightarrow> 'fmt \<Rightarrow> (string \<rightharpoonup> string) \<Rightarrow> error + 'rep" where
  "runRulesMatchingCriteria recombineAndReformatResults w engines catalog settled
       filters targets format engineOptions =
     (case combinedResults w engines catalog settled filters targets engineOptions of
        Inl err \<Rightarrow> Inl err
      | Inr results \<Rightarrow>
          (case recombineAndReformatResults results format of
             Inl e \<Rightarrow> Inl (SfdxError (message_or_self e))
           | Inr report \<Rightarrow> Inr report))"

section \<open>Initialisation\<close>

text \<open>The side effects of \<^verbatim>\<open>init\<close>, recorded in the order they happen.\<close>

datatype effect = LoggerChild string | NewFileHandler | EngineInit string | CatalogInit

record ('res, 'f) DefaultRuleManager =
  engines :: "'res RuleEngine list"
  catalog :: "'f RuleCatalog"
  initialized :: bool
  effects :: "effect list"

text \<open>
  \<^verbatim>\<open>for (const engine of this.engines) { await engine.init(); }\<close>: the effects so far,
  and the rejection that ended the loop, if any.
\<close>

fun initEngines :: "'res RuleEngine list \<Rightarrow> effect list \<Rightarrow> effect list \<times> rejection option" where
  "initEngines [] sofar = (sofar, None)"
| "initEngines (e # es) sofar =
     (case engine_init e of
        Some err \<Rightarrow> (sofar @ [EngineInit (getName e)], Some err)
      | None \<Rightarrow> initEngines es (sofar @ [EngineInit (getName e)]))"

text \<open>\<^verbatim>\<open>init\<close>: the manager afterwards, and the rejection of the call (\<open>None\<close>: it resolved).\<close>

definition init :: "('res, 'f) DefaultRuleManager
                      \<Rightarrow> ('res, 'f) DefaultRuleManager \<times> rejection option" where
  "init m =
     (if initialized m then (m, None)
      else
        (case initEngines (engines m)
                (effects m @ [LoggerChild ''DefaultManager'', NewFileHandler]) of
           (sofar, Some err) \<Rightarrow> (m\<lparr>effects := sofar\<rparr>, Some err)
         | (sofar, None) \<Rightarrow>
             (case catalog_init (catalog m) of
                Some err \<Rightarrow> (m\<lparr>effects := sofar @ [CatalogInit]\<rparr>, Some err)
              | None \<Rightarrow>
                  (m\<lparr>effects := sofar @ [CatalogInit], initialized := True\<rparr>, None))))"

text \<open>\<open>n\<close> calls of \<^verbatim>\<open>init\<close> in a row.\<close>

fun initTimes :: "nat \<Rightarrow> ('res, 'f) DefaultRuleManager \<Rightarrow> ('res, 'f) DefaultRuleManager" where
  "initTimes 0 m = m"
| "initTimes (Suc n) m = initTimes n (fst (init m))"

section \<open>Warnings of the cataloger\<close>

datatype MessageType = WARNING

datatype MessageHandler = UX

text \<open>
  The class \<^verbatim>\<open>SfdxMessage\<close>. \<^verbatim>\<open>EventKey\<close> is an enum declared outside this file: a
  type parameter.
\<close>

record 'k SfdxMessage =
  key :: 'k
  args :: "string list"
  type :: MessageType
  handler :: MessageHandler
  verbose :: bool
  time :: int

definition START :: string where
  "START = ''SFDX-START''"

definition END :: string where
  "END = ''SFDX-END''"

text \<open>The constructor; \<open>now\<close> is what \<^verbatim>\<open>Instant.now().toEpochMilli()\<close> reads.\<close>

definition newSfdxMessage :: "int \<Rightarrow> 'k \<Rightarrow> string list \<Rightarrow> MessageType \<Rightarrow> MessageHandler \<Rightarrow> bool
                                \<Rightarrow> 'k SfdxMessage" where
  "newSfdxMessage now k a t h v =
     \<lparr>key = k, args = a, type = t, handler = h, verbose = v, time = now\<rparr>"

text \<open>
  \<^verbatim>\<open>formatMessage\<close>; \<open>toJson\<close> is \<^verbatim>\<open>new Gson().toJson(this)\<close>, the serialiser of a
  library, a parameter.
\<close>

definition formatMessage :: "('k SfdxMessage \<Rightarrow> string) \<Rightarrow> int \<Rightarrow> 'k \<Rightarrow> string list
     \<Rightarrow> MessageType \<Rightarrow> MessageHandler \<Rightarrow> bool \<Rightarrow> string" where
  "formatMessage toJson now k a t h v = START @ toJson (newSfdxMessage now k a t h v) @ END"

text \<open>
  \<^verbatim>\<open>System.err\<close> as the list of the lines printed so far: \<^verbatim>\<open>println\<close> adds one entry.
\<close>

definition println :: "string \<Rightarrow> string list \<Rightarrow> string list" where
  "println s err = err @ [s]"

definition uxWarn :: "('k SfdxMessage \<Rightarrow> string) \<Rightarrow> int \<Rightarrow> 'k \<Rightarrow> string list \<Rightarrow> bool
                        \<Rightarrow> string list \<Rightarrow> string list" where
  "uxWarn toJson now k a v err = println (formatMessage toJson now k a WARNING UX v) err"

text \<open>The overload \<^verbatim>\<open>uxWarn(key, args)\<close>.\<close>

definition uxWarn2 :: "('k SfdxMessage \<Rightarrow> string) \<Rightarrow> int \<Rightarrow> 'k \<Rightarrow> string list
                         \<Rightarrow> string list \<Rightarrow> string list" where
  "uxWarn2 toJson now k a err = uxWarn toJson now k a False err"

section \<open>A project to run the definitions on\<close>

text \<open>
  A working directory \<^verbatim>\<open>/proj\<close> with the directory \<^verbatim>\<open>src\<close>, holding \<^verbatim>\<open>Foo.cls\<close> and
  \<^verbatim>\<open>Ignored.cls\<close>, and the directory \<^verbatim>\<open>docs\<close>, holding no Apex file. The matcher knows
  the two globs that the engines below use.
\<close>

definition endsWith :: "string \<Rightarrow> string \<Rightarrow> bool" where
  "endsWith s suf = (length suf \<le> length s \<and> drop (length s - length suf) s = suf)"

definition proj :: world where
  "proj =
     \<lparr>fileExists = (\<lambda>p. p \<in> set [''src'', ''docs'', ''src/Foo.cls'', ''src/Ignored.cls'']),
      stats_isDirectory = (\<lambda>p. p \<in> set [''src'', ''docs'']),
      hasMagic = (\<lambda>p. CHR ''*'' \<in> set p),
      globby = (\<lambda>pat. if pat = ''src/*.cls'' then [''src/Foo.cls'', ''src/Ignored.cls''] else []),
      globby_cwd = (\<lambda>pats cwd.
         if cwd = ''src'' \<and> ''**/*.cls'' \<in> set pats
         then (if ''!**/Ignored.cls'' \<in> set pats then [''Foo.cls'']
               else [''Foo.cls'', ''Ignored.cls''])
         else []),
      path_resolve = (\<lambda>p. ''/proj/'' @ p),
      path_join = (\<lambda>a b. a @ ''/'' @ b),
      isMatch = (\<lambda>g s.
         if g = ''**/*.cls'' then endsWith s ''.cls''
         else if g = ''!**/Ignored.cls'' then \<not> endsWith s ''/Ignored.cls''
         else False)\<rparr>"

text \<open>
  An engine with the given name, answer to \<^verbatim>\<open>getTargetPatterns\<close> and outcome of
  \<^verbatim>\<open>run\<close>; a run that resolves reports one result for every path it was given.
\<close>

definition engineOf :: "string \<Rightarrow> string list option \<Rightarrow> rejection option \<Rightarrow> string RuleEngine" where
  "engineOf n pats failure =
     \<lparr>getName = n, engine_init = None, getTargetPatterns = (\<lambda>_. pats),
      run = (\<lambda>engineGroups engineRules engineTargets engineOptions.
         case failure of
           Some err \<Rightarrow> Inl err
         | None \<Rightarrow> Inr (map (\<lambda>p. n @ '':'' @ p) (concat (map paths engineTargets))))\<rparr>"

definition pmd :: "string RuleEngine" where
  "pmd = engineOf ''pmd'' (Some [''**/*.cls'', ''!**/Ignored.cls'']) None"

definition apex :: "string RuleEngine" where
  "apex = engineOf ''apex'' (Some [''**/*.cls'']) None"

definition bare :: "string RuleEngine" where
  "bare = engineOf ''bare'' (Some []) None"

definition silent :: "string RuleEngine" where
  "silent = engineOf ''silent'' None None"

definition crashing :: "string RuleEngine" where
  "crashing = engineOf ''crashing'' (Some [''**/*.cls'', ''!**/Ignored.cls''])
                (Some (ErrorObject ''out of memory''))"

definition rulebook :: "unit RuleCatalog" where
  "rulebook =
     \<lparr>catalog_init = None,
      getRuleGroupsMatchingFilters = (\<lambda>_. [\<lparr>RuleGroup.engine = ''pmd'', name = ''design''\<rparr>]),
      getRulesMatchingFilters = (\<lambda>_.
         [\<lparr>Rule.engine = ''pmd'', name = ''TooManyFields''\<rparr>,
          \<lparr>Rule.engine = ''crashing'', name = ''Boom''\<rparr>,
          \<lparr>Rule.engine = ''apex'', name = ''Naming''\<rparr>])\<rparr>"

text \<open>A recombinator that returns the combined list as the report.\<close>

definition plainReport :: "string list \<Rightarrow> unit \<Rightarrow> rejection + string list" where
  "plainReport results format = Inr results"

definition manager :: "(string, unit) DefaultRuleManager" where
  "manager = \<lparr>engines = [pmd, apex], catalog = rulebook, initialized = False, effects = []\<rparr>"

text \<open>A serialiser to run \<^verbatim>\<open>uxWarn\<close> with: it writes the arguments of the message only.\<close>

definition argsJson :: "nat SfdxMessage \<Rightarrow> string" where
  "argsJson m = ''['' @ concat (args m) @ '']''"

lemmas proj_defs =
  proj_def engineOf_def pmd_def apex_def bare_def silent_def crashing_def rulebook_def

section \<open>Facts about target resolution\<close>

text \<open>The matcher that picomatch builds from no glob at all accepts nothing.\<close>

lemma picomatch_Nil: "picomatch w [] = Inr (\<lambda>str. False)"
  by (simp add: picomatch_def)

text \<open>The globs compile when none is empty and none is too long; no assertion fails there.\<close>

lemma compileGlobs_None_iff:
  "(compileGlobs gs = None) = (\<forall>g\<in>set gs. g \<noteq> [] \<and> length g \<le> 65536)"
  by (induction gs) auto

lemma compileGlobs_not_assertion: "compileGlobs gs \<noteq> Some AssertionError"
  by (induction gs) auto

lemma compileGlobs_both:
  "(compileGlobs (filter (\<lambda>p. \<not> P p) gs) = None \<and> compileGlobs (filter P gs) = None) =
     (compileGlobs gs = None)"
  by (auto simp: compileGlobs_None_iff)

lemma picomatch_not_assertion: "picomatch w gs \<noteq> Inl AssertionError"
  using compileGlobs_not_assertion [of gs]
  by (auto simp: picomatch_def split: option.splits)

lemma unpackLoop_append:
  "unpackLoop w e acc (xs @ ys) =
     (case unpackLoop w e acc xs of Inl err \<Rightarrow> Inl err | Inr acc' \<Rightarrow> unpackLoop w e acc' ys)"
  by (induction xs arbitrary: acc) (auto split: sum.splits)

text \<open>
  With no pattern that starts with \<^verbatim>\<open>!\<close>, the glob branch and the plain-file branch keep
  nothing, whatever the inclusion patterns match: \<^verbatim>\<open>isExclusiveMatch\<close> is the matcher of
  the empty array.
\<close>

lemma no_exclusions_keep_nothing:
  assumes pats: "getTargetPatterns e t = Some pats"
      and positive: "filter (\<lambda>p. startsWith p ''!'') pats = []"
      and branch: "hasMagic w t \<or> \<not> stats_isDirectory w t"
  shows "unpackTarget w e t = Inr [] \<or> (\<exists>err. unpackTarget w e t = Inl err)"
  using pats positive branch
  by (auto simp: unpackTarget_def picomatch_def Let_def split: option.splits)

text \<open>
  The directory branch always expands the patterns: past the assertion the value is an
  array, so the test \<^verbatim>\<open>if (targetPatterns)\<close> holds and its \<^verbatim>\<open>else\<close>, which would push
  the placeholder, is never taken.
\<close>

lemma directory_branch_expands:
  assumes res: "unpackTarget w e t = Inr pushed"
      and plain: "\<not> hasMagic w t"
      and there: "fileExists w t"
      and dir: "stats_isDirectory w t"
  shows "\<exists>pats. getTargetPatterns e t = Some pats \<and>
           pushed = [\<lparr>target = t, isDirectory = Some True,
                      paths = map (path_resolve w) (map (path_join w t) (globby_cwd w pats t))\<rparr>]"
  using res plain there dir
  by (auto simp: unpackTarget_def Let_def split: option.splits sum.splits)

text \<open>
  What the glob branch and the plain-file branch push has a path in it; the directory
  branch is the one that pushes without looking at \<^verbatim>\<open>paths\<close>.
\<close>

lemma kept_paths_nonempty:
  assumes res: "unpackTarget w e t = Inr pushed"
      and branch: "hasMagic w t \<or> \<not> stats_isDirectory w t"
      and rt: "rt \<in> set pushed"
  shows "paths rt \<noteq> []"
  using res branch rt
  by (auto simp: unpackTarget_def Let_def split: option.splits sum.splits if_splits)

text \<open>
  C1. With no exclusion pattern the exclusive matcher should accept every path, so that a
  path matching an inclusion pattern is kept. The code does not do so: the engine
  \<open>apex\<close> declares the one pattern \<^verbatim>\<open>**/*.cls\<close>, the file \<^verbatim>\<open>src/Foo.cls\<close> exists and
  its absolute path matches that pattern, and yet neither the plain-file target
  \<^verbatim>\<open>src/Foo.cls\<close> nor the glob target \<^verbatim>\<open>src/*.cls\<close> yields a RuleTarget.
\<close>

theorem no_exclusion_patterns_nothing_kept:
  "getTargetPatterns apex ''src/Foo.cls'' = Some [''**/*.cls''] \<and>
   isMatch proj ''**/*.cls'' (path_resolve proj ''src/Foo.cls'') \<and>
   unpackTargets proj apex [''src/Foo.cls''] = Inr [] \<and>
   globby proj ''src/*.cls'' = [''src/Foo.cls'', ''src/Ignored.cls''] \<and>
   unpackTargets proj apex [''src/*.cls''] = Inr []"
  by (simp add: proj_defs unpackTargets_def unpackTarget_def picomatch_def startsWith_def
        endsWith_def)

text \<open>
  C2. For an existing directory and an engine that declares no target patterns, the
  RuleTarget should hold the placeholder path for the directory itself, as the
  \<^verbatim>\<open>else\<close> of the directory branch writes it. The code never gets there: the engine
  \<open>bare\<close> answers the empty array for the existing directory \<^verbatim>\<open>docs\<close>, the empty array
  is truthy, the directory is expanded with globby, and the RuleTarget carries the paths
  found (none), not the placeholder.
\<close>

theorem directory_empty_patterns_no_placeholder:
  "getTargetPatterns bare ''docs'' = Some [] \<and> fileExists proj ''docs'' \<and>
   stats_isDirectory proj ''docs'' \<and>
   unpackTargets proj bare [''docs''] =
     Inr [\<lparr>target = ''docs'', isDirectory = Some True, paths = []\<rparr>] \<and>
   unpackTargets proj bare [''docs''] \<noteq>
     Inr [\<lparr>target = ''docs'', isDirectory = Some True, paths = [''.'']\<rparr>]"
  by (simp add: proj_defs unpackTargets_def unpackTarget_def picomatch_def startsWith_def)

text \<open>
  C3. Every RuleTarget returned should have a path. The directory branch breaks this:
  the directory \<^verbatim>\<open>docs\<close> holds no file that the patterns of \<open>pmd\<close> match, and
  \<^verbatim>\<open>unpackTargets\<close> returns a RuleTarget for it whose \<^verbatim>\<open>paths\<close> is empty.
\<close>

theorem empty_directory_target_kept:
  "globby_cwd proj [''**/*.cls'', ''!**/Ignored.cls''] ''docs'' = [] \<and>
   unpackTargets proj pmd [''docs''] =
     Inr [\<lparr>target = ''docs'', isDirectory = Some True, paths = []\<rparr>]"
  by (simp add: proj_defs unpackTargets_def unpackTarget_def picomatch_def startsWith_def)

text \<open>
  C8, as the claim has it, fails: the patterns are asked for, asserted and compiled
  before the disk is looked at, so for the engine \<open>silent\<close>, which hands back
  \<^verbatim>\<open>undefined\<close>, the target \<^verbatim>\<open>nope\<close> (no glob metacharacter, not on disk) is not skipped:
  \<^verbatim>\<open>unpackTargets\<close> throws the assertion failure.
\<close>

theorem missing_plain_target_raises:
  "\<not> hasMagic proj ''nope'' \<and> \<not> fileExists proj ''nope'' \<and>
   getTargetPatterns silent ''nope'' = None \<and>
   unpackTargets proj silent [''nope''] = Inl AssertionError"
  by (simp add: proj_defs unpackTargets_def unpackTarget_def)

text \<open>
  C8, amended. For a target without glob metacharacters that does not exist on disk,
  an iteration of \<^verbatim>\<open>unpackTargets\<close> never pushes a RuleTarget. It throws nothing exactly
  when the engine answers, for that target, an array of globs that picomatch compiles
  (none empty, none longer than 65536 characters); the target is then skipped: the
  result of \<^verbatim>\<open>unpackTargets\<close> is the same as without the target, wherever it stands in
  the list. For any other answer the iteration throws.
\<close>

theorem missing_plain_target_skipped:
  assumes plain: "\<not> hasMagic w t"
      and missing: "\<not> fileExists w t"
  shows "(\<forall>pushed. unpackTarget w e t = Inr pushed \<longrightarrow> pushed = []) \<and>
         (unpackTarget w e t = Inr []) =
           (\<exists>pats. getTargetPatterns e t = Some pats \<and>
                   (\<forall>g\<in>set pats. g \<noteq> [] \<and> length g \<le> 65536)) \<and>
         (unpackTarget w e t = Inr [] \<longrightarrow>
            unpackTargets w e (before @ t # after) = unpackTargets w e (before @ after))"
proof -
  have never: "\<forall>pushed. unpackTarget w e t = Inr pushed \<longrightarrow> pushed = []"
    using plain missing
    by (auto simp: unpackTarget_def Let_def split: option.splits sum.splits)
  have quiet: "(unpackTarget w e t = Inr []) =
           (\<exists>pats. getTargetPatterns e t = Some pats \<and>
                   (\<forall>g\<in>set pats. g \<noteq> [] \<and> length g \<le> 65536))"
  proof (cases "getTargetPatterns e t")
    case None
    then show ?thesis by (simp add: unpackTarget_def)
  next
    case (Some pats)
    have "(unpackTarget w e t = Inr []) =
            (compileGlobs (filter (\<lambda>p. \<not> startsWith p ''!'') pats) = None \<and>
             compileGlobs (filter (\<lambda>p. startsWith p ''!'') pats) = None)"
      using Some plain missing
      by (auto simp: unpackTarget_def picomatch_def split: option.splits)
    also have "\<dots> = (compileGlobs pats = None)"
      by (rule compileGlobs_both)
    finally show ?thesis
      using Some by (simp add: compileGlobs_None_iff)
  qed
  have skipped: "unpackTargets w e (before @ t # after) = unpackTargets w e (before @ after)"
    if step: "unpackTarget w e t = Inr []"
  proof -
    have "unpackLoop w e acc (t # after) = unpackLoop w e acc after" for acc
      using step by simp
    then have "unpackLoop w e [] (before @ t # after) = unpackLoop w e [] (before @ after)"
      by (simp add: unpackLoop_append split: sum.splits)
    then show ?thesis by (simp add: unpackTargets_def)
  qed
  from never quiet skipped show ?thesis by blast
qed

theorem missing_plain_target_skipped_witness:
  "unpackTarget proj pmd ''nope'' = Inr [] \<and>
   unpackTargets proj pmd ([''src''] @ ''nope'' # [''docs'']) =
     unpackTargets proj pmd ([''src''] @ [''docs''])"
proof -
  have h1: "\<not> hasMagic proj ''nope''" by (simp add: proj_def)
  have h2: "\<not> fileExists proj ''nope''" by (simp add: proj_def)
  have h3: "\<exists>pats. getTargetPatterns pmd ''nope'' = Some pats \<and>
                  (\<forall>g\<in>set pats. g \<noteq> [] \<and> length g \<le> 65536)"
    by (simp add: pmd_def engineOf_def)
  from missing_plain_target_skipped [OF h1 h2, of pmd "[''src'']" "[''docs'']"] h3
  show ?thesis by blast
qed

text \<open>
  C9. An iteration throws the assertion failure exactly when the engine hands back
  \<^verbatim>\<open>undefined\<close> for the target; the loop then ends at once with that failure, whatever
  it has collected and whatever targets follow; and when the engine answers an array
  (the empty one included) for every target, \<^verbatim>\<open>unpackTargets\<close> does not fail so.
\<close>

theorem undefined_patterns_assertion:
  "(unpackTarget w e t = Inl AssertionError) = (getTargetPatterns e t = None) \<and>
   (getTargetPatterns e t = None \<longrightarrow> unpackLoop w e acc (t # ts) = Inl AssertionError) \<and>
   (list_all (\<lambda>t. getTargetPatterns e t \<noteq> None) ts \<longrightarrow>
      unpackTargets w e ts \<noteq> Inl AssertionError)"
proof -
  have one: "(unpackTarget w e t = Inl AssertionError) = (getTargetPatterns e t = None)" for t
    using picomatch_not_assertion [of w]
    by (auto simp: unpackTarget_def Let_def split: option.splits sum.splits if_splits)
  have two: "getTargetPatterns e t = None \<longrightarrow> unpackLoop w e acc (t # ts) = Inl AssertionError"
    using one [of t] by auto
  have three: "list_all (\<lambda>t. getTargetPatterns e t \<noteq> None) ts \<Longrightarrow>
                 unpackLoop w e acc ts \<noteq> Inl AssertionError" for acc
  proof (induction ts arbitrary: acc)
    case Nil
    show ?case by simp
  next
    case (Cons a ts)
    then show ?case using one [of a] by (auto split: sum.splits)
  qed
  from one two three show ?thesis by (simp add: unpackTargets_def)
qed

theorem undefined_patterns_assertion_witness:
  "unpackLoop proj silent [] (''src'' # [''docs'']) = Inl AssertionError \<and>
   unpackTargets proj bare [''src'', ''nope''] \<noteq> Inl AssertionError"
proof -
  have h1: "getTargetPatterns silent ''src'' = None" by (simp add: silent_def engineOf_def)
  have h2: "list_all (\<lambda>t. getTargetPatterns bare t \<noteq> None) [''src'', ''nope'']"
    by (simp add: bare_def engineOf_def)
  show ?thesis
    using undefined_patterns_assertion [of proj silent "''src''" "[]" "[''docs'']"]
          undefined_patterns_assertion [of proj bare "''src''" "[]" "[''src'', ''nope'']"]
          h1 h2
    by blast
qed

section \<open>Facts about orchestration\<close>

text \<open>The loop dispatches the eligible engines, in the order of the engine list.\<close>

lemma dispatchLoop_eligible:
  "dispatchLoop w gs rs ts es = Inr ds \<Longrightarrow>
     ds = map (dispatchOf w gs rs ts) (filter (isEligible w rs ts) es)"
proof (induction es arbitrary: ds)
  case Nil
  then show ?case by simp
next
  case (Cons e es)
  then show ?case
    by (auto simp: isEligible_def dispatchOf_def Let_def split: sum.splits if_splits)
qed

lemma foldl_append_concat: "foldl (\<lambda>results r. results @ r) acc xs = acc @ concat xs"
  by (induction xs arbitrary: acc) auto

lemma concatResults_concat: "concatResults xs = concat xs"
  by (simp add: concatResults_def foldl_append_concat)

lemma rejections_none: "\<forall>p\<in>set ps. \<not> isl p \<Longrightarrow> rejections ps = []"
  by (simp add: rejections_def filter_empty_conv)

lemma rejectionsInTime_none: "\<forall>p\<in>set ps. \<not> isl p \<Longrightarrow> rejectionsInTime settled ps = []"
  by (simp add: rejectionsInTime_def filter_empty_conv)

lemma promise_all_resolves:
  "\<forall>p\<in>set ps. \<not> isl p \<Longrightarrow> promise_all settled ps = Inr (map projr ps)"
  by (simp add: promise_all_def rejections_none rejectionsInTime_none)

lemma rejections_mem: "r \<in> set (rejections ps) \<Longrightarrow> Inl r \<in> set ps"
  by (auto simp: rejections_def)

lemma rejectionsInTime_mem: "r \<in> set (rejectionsInTime settled ps) \<Longrightarrow> Inl r \<in> set ps"
  by (auto simp: rejectionsInTime_def)

lemma promise_all_rejects:
  assumes "\<exists>p\<in>set ps. isl p"
  shows "\<exists>r. promise_all settled ps = Inl r \<and> Inl r \<in> set ps"
proof -
  from assms have "rejections ps \<noteq> []"
    by (auto simp: rejections_def filter_empty_conv)
  then obtain r rest where split: "rejectionsInTime settled ps @ rejections ps = r # rest"
    by (cases "rejectionsInTime settled ps @ rejections ps") auto
  then have "r \<in> set (rejectionsInTime settled ps) \<or> r \<in> set (rejections ps)"
    by (metis Un_iff list.set_intros(1) set_append)
  then have "Inl r \<in> set ps"
    using rejections_mem rejectionsInTime_mem by blast
  moreover have "promise_all settled ps = Inl r"
    using split by (simp add: promise_all_def)
  ultimately show ?thesis by blast
qed

text \<open>
  C4. An engine should be dispatched only with a matching rule and a resolved target
  that has paths. The loop tests the number of RuleTargets instead, and the directory
  branch of \<^verbatim>\<open>unpackTargets\<close> keeps a RuleTarget without paths: for the target
  \<^verbatim>\<open>docs\<close>, \<open>pmd\<close> is dispatched with its group, its rule and one RuleTarget whose
  \<^verbatim>\<open>paths\<close> is empty.
\<close>

theorem engine_dispatched_without_paths:
  "dispatchLoop proj (getRuleGroupsMatchingFilters rulebook [()])
       (getRulesMatchingFilters rulebook [()]) [''docs''] [pmd] =
     Inr [(pmd, [\<lparr>RuleGroup.engine = ''pmd'', name = ''design''\<rparr>],
           [\<lparr>Rule.engine = ''pmd'', name = ''TooManyFields''\<rparr>],
           [\<lparr>target = ''docs'', isDirectory = Some True, paths = []\<rparr>])]"
  by (simp add: proj_defs unpackTargets_def unpackTarget_def picomatch_def startsWith_def)

text \<open>
  A throw of the dispatch loop leaves \<^verbatim>\<open>runRulesMatchingCriteria\<close> as it is: the
  \<^verbatim>\<open>try\<close> starts after the loop.
\<close>

lemma dispatch_throw_not_wrapped:
  "dispatchLoop w (getRuleGroupsMatchingFilters cat filters)
       (getRulesMatchingFilters cat filters) targets engs = Inl err \<Longrightarrow>
     runRulesMatchingCriteria recombine w engs cat settled filters targets format
       engineOptions = Inl err"
  by (simp add: runRulesMatchingCriteria_def combinedResults_def)

text \<open>
  C5, as the claim has it, fails: \<^verbatim>\<open>e.run\<close> is called inside the loop, and the
  \<^verbatim>\<open>try\<close> that wraps a rejection starts after it. With the engines \<open>crashing\<close> and
  \<open>silent\<close>, the loop dispatches \<open>crashing\<close>, whose run rejects with the message
  \<^verbatim>\<open>out of memory\<close>, and then \<^verbatim>\<open>unpackTargets\<close> throws for \<open>silent\<close>: the call fails
  with the bare assertion failure, which carries nothing of that message.
\<close>

theorem dispatched_rejection_not_reported:
  "dispatchLoop proj (getRuleGroupsMatchingFilters rulebook [()])
       (getRulesMatchingFilters rulebook [()]) [''src''] [crashing] =
     Inr [dispatchOf proj (getRuleGroupsMatchingFilters rulebook [()])
            (getRulesMatchingFilters rulebook [()]) [''src''] crashing] \<and>
   runDispatch Map.empty
       (dispatchOf proj (getRuleGroupsMatchingFilters rulebook [()])
          (getRulesMatchingFilters rulebook [()]) [''src''] crashing) =
     Inl (ErrorObject ''out of memory'') \<and>
   runRulesMatchingCriteria plainReport proj [crashing, silent] rulebook [0] [()]
       [''src''] () Map.empty = Inl AssertionError"
  by (simp add: proj_defs runRulesMatchingCriteria_def combinedResults_def runDispatch_def
        dispatchOf_def unpackTargets_def unpackTarget_def picomatch_def startsWith_def)

text \<open>
  C5, amended. When the dispatch loop has run through, that is when target resolution
  throws for no engine, and the run of some dispatched engine rejects,
  \<^verbatim>\<open>runRulesMatchingCriteria\<close> throws one \<^verbatim>\<open>SfdxError\<close>, built from the rejection \<open>e\<close> of
  a dispatched engine by \<^verbatim>\<open>e.message || e\<close>: it carries the message of \<open>e\<close> whenever
  \<open>e\<close> has a non-empty one. No report is returned, whatever the recombinator and whatever
  the other engines resolved with.
\<close>

theorem engine_rejection_fails_run:
  assumes loop: "dispatchLoop w (getRuleGroupsMatchingFilters cat filters)
                   (getRulesMatchingFilters cat filters) targets engs = Inr ds"
      and failed: "\<exists>d\<in>set ds. isl (runDispatch engineOptions d)"
  shows "\<exists>d\<in>set ds. \<exists>e. runDispatch engineOptions d = Inl e \<and>
           runRulesMatchingCriteria recombine w engs cat settled filters targets
               format engineOptions = Inl (SfdxError (message_or_self e)) \<and>
           (\<forall>m. e = ErrorObject m \<and> m \<noteq> [] \<longrightarrow>
              runRulesMatchingCriteria recombine w engs cat settled filters targets
                format engineOptions = Inl (SfdxError (Inl m)))"
proof -
  from failed have "\<exists>p\<in>set (map (runDispatch engineOptions) ds). isl p"
    by simp
  then obtain e where rej: "promise_all settled (map (runDispatch engineOptions) ds) = Inl e"
      and mem: "Inl e \<in> set (map (runDispatch engineOptions) ds)"
    using promise_all_rejects by blast
  from mem obtain d where d: "d \<in> set ds" "runDispatch engineOptions d = Inl e"
    by auto
  have res: "runRulesMatchingCriteria recombine w engs cat settled filters targets
               format engineOptions = Inl (SfdxError (message_or_self e))"
    using loop rej by (simp add: runRulesMatchingCriteria_def combinedResults_def)
  have "\<forall>m. e = ErrorObject m \<and> m \<noteq> [] \<longrightarrow>
              runRulesMatchingCriteria recombine w engs cat settled filters targets
                format engineOptions = Inl (SfdxError (Inl m))"
    using res by auto
  with d res show ?thesis by blast
qed

theorem engine_rejection_fails_run_witness:
  "runRulesMatchingCriteria (\<lambda>rs fmt. Inr rs) proj [pmd, crashing, apex] rulebook [1, 0] [()]
      [''src''] () Map.empty = Inl (SfdxError (Inl ''out of memory''))"
proof -
  let ?gs = "getRuleGroupsMatchingFilters rulebook [()]"
  let ?rs = "getRulesMatchingFilters rulebook [()]"
  let ?ds = "[dispatchOf proj ?gs ?rs [''src''] pmd, dispatchOf proj ?gs ?rs [''src''] crashing,
              dispatchOf proj ?gs ?rs [''src''] apex]"
  have h1: "dispatchLoop proj ?gs ?rs [''src''] [pmd, crashing, apex] = Inr ?ds"
    by (simp add: proj_defs dispatchOf_def unpackTargets_def unpackTarget_def picomatch_def
          startsWith_def)
  have r1: "runDispatch Map.empty (?ds ! 0) = Inr [''pmd:/proj/src/Foo.cls'']"
    by (simp add: proj_defs runDispatch_def dispatchOf_def unpackTargets_def unpackTarget_def
          picomatch_def startsWith_def)
  have r2: "runDispatch Map.empty (?ds ! 1) = Inl (ErrorObject ''out of memory'')"
    by (simp add: proj_defs runDispatch_def dispatchOf_def)
  have r3: "runDispatch Map.empty (?ds ! 2) =
              Inr [''apex:/proj/src/Foo.cls'', ''apex:/proj/src/Ignored.cls'']"
    by (simp add: proj_defs runDispatch_def dispatchOf_def unpackTargets_def unpackTarget_def
          picomatch_def startsWith_def)
  have h2: "\<exists>d\<in>set ?ds. isl (runDispatch Map.empty d)"
    using r2 by simp
  from engine_rejection_fails_run [OF h1 h2, of "\<lambda>rs fmt. Inr rs" "[1, 0]" "()"]
  show ?thesis using r1 r2 r3 by auto
qed

text \<open>
  C6. When the dispatch loop has run through and every dispatched run resolves, the list
  handed to the recombinator is the concatenation of the engines' result lists in the
  order of the dispatches, and the dispatched engines are the eligible ones in the order
  of the engine list. The order \<open>settled\<close> in which the runs complete does not occur in
  the result.
\<close>

theorem combined_results_in_engine_order:
  assumes loop: "dispatchLoop w (getRuleGroupsMatchingFilters cat filters)
                   (getRulesMatchingFilters cat filters) targets engs = Inr ds"
      and ok: "\<forall>d\<in>set ds. \<not> isl (runDispatch engineOptions d)"
  shows "combinedResults w engs cat settled filters targets engineOptions =
           Inr (concat (map (\<lambda>d. projr (runDispatch engineOptions d)) ds)) \<and>
         map fst ds =
           filter (isEligible w (getRulesMatchingFilters cat filters) targets) engs"
proof -
  have "promise_all settled (map (runDispatch engineOptions) ds) =
          Inr (map projr (map (runDispatch engineOptions) ds))"
    using ok by (intro promise_all_resolves) simp
  then have "combinedResults w engs cat settled filters targets engineOptions =
           Inr (concat (map (\<lambda>d. projr (runDispatch engineOptions d)) ds))"
    using loop by (simp add: combinedResults_def concatResults_concat comp_def)
  moreover have "map fst ds =
           filter (isEligible w (getRulesMatchingFilters cat filters) targets) engs"
    using dispatchLoop_eligible [OF loop] by (simp add: comp_def dispatchOf_def)
  ultimately show ?thesis by simp
qed

theorem combined_results_in_engine_order_witness:
  "combinedResults proj [apex, silent, pmd] rulebook [1, 0] [()] [] Map.empty = Inr [] \<and>
   combinedResults proj [apex, bare, pmd] rulebook [1, 0] [()] [''src''] Map.empty =
     Inr [''apex:/proj/src/Foo.cls'', ''apex:/proj/src/Ignored.cls'', ''pmd:/proj/src/Foo.cls'']"
proof -
  let ?gs = "getRuleGroupsMatchingFilters rulebook [()]"
  let ?rs = "getRulesMatchingFilters rulebook [()]"
  let ?ds = "[dispatchOf proj ?gs ?rs [''src''] apex, dispatchOf proj ?gs ?rs [''src''] pmd]"
  have h1: "dispatchLoop proj ?gs ?rs [''src''] [apex, bare, pmd] = Inr ?ds"
    by (simp add: proj_defs dispatchOf_def unpackTargets_def unpackTarget_def picomatch_def
          startsWith_def)
  have r1: "runDispatch Map.empty (?ds ! 0) =
              Inr [''apex:/proj/src/Foo.cls'', ''apex:/proj/src/Ignored.cls'']"
    by (simp add: proj_defs runDispatch_def dispatchOf_def unpackTargets_def unpackTarget_def
          picomatch_def startsWith_def)
  have r2: "runDispatch Map.empty (?ds ! 1) = Inr [''pmd:/proj/src/Foo.cls'']"
    by (simp add: proj_defs runDispatch_def dispatchOf_def unpackTargets_def unpackTarget_def
          picomatch_def startsWith_def)
  have h2: "\<forall>d\<in>set ?ds. \<not> isl (runDispatch Map.empty d)"
    using r1 r2 by simp
  have e1: "dispatchLoop proj ?gs ?rs [] [apex, silent, pmd] = Inr []"
    by (simp add: proj_defs unpackTargets_def)
  have e2: "\<forall>d\<in>set []. \<not> isl (runDispatch Map.empty (d :: string dispatch))"
    by simp
  from combined_results_in_engine_order [OF h1 h2, of "[1, 0]"]
       combined_results_in_engine_order [OF e1 e2, of "[1, 0]"]
  show ?thesis using r1 r2 by simp
qed

section \<open>Facts about initialisation\<close>

lemma initEngines_resolved:
  "initEngines es sofar = (sofar', None) \<Longrightarrow>
     sofar' = sofar @ map (\<lambda>e. EngineInit (getName e)) es"
proof (induction es arbitrary: sofar)
  case Nil
  then show ?case by simp
next
  case (Cons e es)
  from Cons.prems have none: "engine_init e = None"
    by (simp split: option.splits)
  with Cons.prems have "initEngines es (sofar @ [EngineInit (getName e)]) = (sofar', None)"
    by simp
  then have "sofar' = (sofar @ [EngineInit (getName e)]) @ map (\<lambda>e. EngineInit (getName e)) es"
    by (rule Cons.IH)
  then show ?case by simp
qed

lemma init_initialized: "initialized m \<Longrightarrow> init m = (m, None)"
  by (simp add: init_def)

lemma init_resolved_initialized: "snd (init m) = None \<Longrightarrow> initialized (fst (init m))"
  by (auto simp: init_def split: prod.splits option.splits if_splits)

lemma initTimes_initialized: "initialized m \<Longrightarrow> initTimes n m = m"
  by (induction n) (auto simp: init_initialized)

text \<open>
  C7. After a first call of \<^verbatim>\<open>init\<close> that resolves on a manager not yet initialised, a
  further call returns at once and leaves the manager as it is; so after any number of
  calls the manager is the one the first call left, and the effects performed are those
  of the first call: one \<^verbatim>\<open>init\<close> of every engine, in order, and one of the catalog.
\<close>

theorem init_idempotent:
  assumes fresh: "\<not> initialized m"
      and first: "snd (init m) = None"
  shows "init (fst (init m)) = (fst (init m), None) \<and>
         initTimes (Suc n) m = fst (init m) \<and>
         effects (initTimes (Suc n) m) =
           effects m @ [LoggerChild ''DefaultManager'', NewFileHandler]
             @ map (\<lambda>e. EngineInit (getName e)) (engines m) @ [CatalogInit]"
proof -
  have i: "initialized (fst (init m))"
    using first by (rule init_resolved_initialized)
  have again: "init (fst (init m)) = (fst (init m), None)"
    using i by (rule init_initialized)
  have times: "initTimes (Suc n) m = fst (init m)"
    using i by (simp add: initTimes_initialized)
  have "effects (fst (init m)) =
           effects m @ [LoggerChild ''DefaultManager'', NewFileHandler]
             @ map (\<lambda>e. EngineInit (getName e)) (engines m) @ [CatalogInit]"
    using fresh first
    by (auto simp: init_def split: prod.splits option.splits dest: initEngines_resolved)
  with again times show ?thesis by simp
qed

theorem init_idempotent_witness:
  "init (fst (init manager)) = (fst (init manager), None) \<and>
   initTimes (Suc 2) manager = fst (init manager) \<and>
   effects (initTimes (Suc 2) manager) =
     [LoggerChild ''DefaultManager'', NewFileHandler, EngineInit ''pmd'', EngineInit ''apex'',
      CatalogInit]"
proof -
  have h1: "\<not> initialized manager" by (simp add: manager_def)
  have h2: "snd (init manager) = None"
    by (simp add: manager_def init_def proj_defs)
  have e: "effects manager @ [LoggerChild ''DefaultManager'', NewFileHandler]
             @ map (\<lambda>e. EngineInit (getName e)) (engines manager) @ [CatalogInit] =
           [LoggerChild ''DefaultManager'', NewFileHandler, EngineInit ''pmd'',
            EngineInit ''apex'', CatalogInit]"
    by (simp add: manager_def proj_defs)
  from init_idempotent [OF h1 h2, of 2]
  show ?thesis unfolding e .
qed

section \<open>Facts about the warnings\<close>

text \<open>
  C10. \<^verbatim>\<open>uxWarn\<close> prints one line: \<^verbatim>\<open>SFDX-START\<close>, the serialisation of the message
  with the given key, arguments and verbose flag, type \<^verbatim>\<open>WARNING\<close> and handler \<^verbatim>\<open>UX\<close>
  (and the time of its creation), then \<^verbatim>\<open>SFDX-END\<close>. The overload without the flag
  passes \<^verbatim>\<open>false\<close>. When the serialisation holds no line feed, neither does the line.
\<close>

theorem uxWarn_bracketed:
  "uxWarn toJson now k a v err =
     err @ [''SFDX-START'' @ toJson \<lparr>key = k, args = a, type = WARNING, handler = UX,
                                    verbose = v, time = now\<rparr> @ ''SFDX-END''] \<and>
   uxWarn2 toJson now k a err = uxWarn toJson now k a False err \<and>
   (CHR 0x0A \<notin> set (toJson (newSfdxMessage now k a WARNING UX v)) \<longrightarrow>
      CHR 0x0A \<notin> set (last (uxWarn toJson now k a v err)))"
  by (simp add: uxWarn_def uxWarn2_def println_def formatMessage_def newSfdxMessage_def
        START_def END_def)

theorem uxWarn_bracketed_witness:
  "uxWarn argsJson 1600000000000 7 [''a'', ''b''] True [''earlier''] =
     [''earlier'', ''SFDX-START[ab]SFDX-END''] \<and>
   CHR 0x0A \<notin> set (last (uxWarn argsJson 1600000000000 7 [''a'', ''b''] True [''earlier'']))"
proof -
  have h: "CHR 0x0A \<notin> set (argsJson (newSfdxMessage 1600000000000 7 [''a'', ''b''] WARNING UX True))"
    by (simp add: argsJson_def newSfdxMessage_def)
  from uxWarn_bracketed [of argsJson 1600000000000 7 "[''a'', ''b'']" True "[''earlier'']"] h
  show ?thesis by (simp add: argsJson_def)
qed

end
